theory Spec2Isabelle
  imports Complex_Main
begin

section \<open>Vectors of the host toolkit\<close>

text \<open>
  The module \<^verbatim>\<open>graphics/graphics_canvas.py\<close> works on the 3D vectors of its rendering
  toolkit. A vector has three float components; the components are modelled as real
  numbers, so every equation below is exact where the program computes it up to
  rounding. The operations are the toolkit's: component-wise sum, difference, negation
  and product with a scalar, \<open>mag\<close> (Euclidean length), \<open>norm\<close> (the unit vector, and the
  zero vector for a vector of length zero), assignment to \<open>mag\<close> (rescale the unit
  vector), \<open>dot\<close>, \<open>cross\<close> and \<open>rotate\<close> (the rotation matrix about a normalised axis).
\<close>

datatype vector = vector (vec_x: real) (vec_y: real) (vec_z: real)

instantiation vector :: real_vector
begin
definition zero_vector_def: "0 = vector 0 0 0"
definition plus_vector_def:
  "a + b = vector (vec_x a + vec_x b) (vec_y a + vec_y b) (vec_z a + vec_z b)"
definition uminus_vector_def: "- a = vector (- vec_x a) (- vec_y a) (- vec_z a)"
definition minus_vector_def:
  "a - b = vector (vec_x a - vec_x b) (vec_y a - vec_y b) (vec_z a - vec_z b)"
definition scaleR_vector_def: "scaleR r a = vector (r * vec_x a) (r * vec_y a) (r * vec_z a)"
instance
  by standard
    (simp_all add: zero_vector_def plus_vector_def uminus_vector_def minus_vector_def
      scaleR_vector_def algebra_simps)
end

definition dot :: "vector \<Rightarrow> vector \<Rightarrow> real" where
  "dot a b = vec_x a * vec_x b + vec_y a * vec_y b + vec_z a * vec_z b"

definition cross :: "vector \<Rightarrow> vector \<Rightarrow> vector" where
  "cross a b = vector (vec_y a * vec_z b - vec_z a * vec_y b)
                      (vec_z a * vec_x b - vec_x a * vec_z b)
                      (vec_x a * vec_y b - vec_y a * vec_x b)"

definition mag :: "vector \<Rightarrow> real" where
  "mag a = sqrt ((vec_x a)\<^sup>2 + (vec_y a)\<^sup>2 + (vec_z a)\<^sup>2)"

definition norm_vec :: "vector \<Rightarrow> vector" where
  "norm_vec a = (if mag a > 0
     then vector (vec_x a / mag a) (vec_y a / mag a) (vec_z a / mag a)
     else vector 0 0 0)"

definition set_mag :: "real \<Rightarrow> vector \<Rightarrow> vector" where
  "set_mag m a = m *\<^sub>R norm_vec a"

definition rotate_vec :: "real \<Rightarrow> vector \<Rightarrow> vector \<Rightarrow> vector" where
  "rotate_vec angle axis v =
    (let u = norm_vec axis;
         c = cos angle;
         s = sin angle;
         t = 1 - c;
         x = vec_x u; y = vec_y u; z = vec_z u;
         m11 = t * x * x + c;     m12 = t * x * y - z * s; m13 = t * x * z + y * s;
         m21 = t * x * y + z * s; m22 = t * y * y + c;     m23 = t * y * z - x * s;
         m31 = t * x * z - y * s; m32 = t * y * z + x * s; m33 = t * z * z + c;
         sx = vec_x v; sy = vec_y v; sz = vec_z v
     in vector (m11 * sx + m12 * sy + m13 * sz)
               (m21 * sx + m22 * sy + m23 * sz)
               (m31 * sx + m32 * sy + m33 * sz))"

definition radians :: "real \<Rightarrow> real" where
  "radians deg = deg * pi / 180"

text \<open>
  Modelled from the spec: \<^verbatim>\<open>graphics/common_functions.py\<close> is not among the sources; it
  supplies the world axes \<open>x_axis_vector\<close>, \<open>y_axis_vector\<close> and \<open>z_axis_vector\<close>, which
  the spec calls the axis unit vectors. The names \<open>vector\<close> and \<open>radians\<close> reach the
  module through the same import; \<open>radians\<close> above turns degrees into radians.
\<close>

definition x_axis_vector :: vector where "x_axis_vector = vector 1 0 0"
definition z_axis_vector :: vector where "z_axis_vector = vector 0 0 1"

section \<open>The scene of the host toolkit\<close>

text \<open>
  The scene is the toolkit's global object; the module reads and assigns its attributes,
  so every function below takes the scene and returns it updated.

  The camera is a view on the scene: the toolkit keeps the focus point \<open>scene.center\<close>
  and the vector \<open>scene.camera.axis\<close> from the camera to the focus, and
  \<open>scene.camera.pos\<close> is \<open>center - axis\<close>. Assigning \<open>scene.camera.pos\<close> keeps the axis
  and moves the centre with the camera (the source says so in \<open>handle_keyboard_inputs\<close>:
  "Changing camera position updates the scene center to follow same changes");
  assigning \<open>scene.camera.axis\<close> keeps the position and puts the centre at
  \<open>pos + axis\<close>. This is also why the handler may take \<open>scene.camera.axis.mag\<close> for
  the distance between camera and focus. Both assignments also switch \<open>scene.autoscale\<close>
  off, as the toolkit's camera does whenever a program places it. \<open>scene.camera.up\<close> reads
  \<open>scene.up\<close>, and assigning \<open>scene.forward\<close> turns the camera axis about the centre,
  keeping its length.
\<close>

datatype callback =
  Handle_keyboard_inputs | Reset_camera | Menu_item_chosen | Reference_frame_checkbox
  | Robot_visibility_checkbox | Opacity_slider

record scene =
  scene_background :: vector
  scene_width :: int
  scene_height :: int
  scene_autoscale :: bool
  scene_userpan :: bool
  scene_userzoom :: bool
  scene_userspin :: bool
  scene_title :: string
  scene_caption :: string
  scene_center :: vector
  camera_axis :: vector
  scene_up :: vector
  scene_bindings :: "(string \<times> callback) list"

definition camera_pos :: "scene \<Rightarrow> vector" where
  "camera_pos sc = scene_center sc - camera_axis sc"

definition camera_up :: "scene \<Rightarrow> vector" where
  "camera_up sc = scene_up sc"

definition set_camera_pos :: "vector \<Rightarrow> scene \<Rightarrow> scene" where
  "set_camera_pos v sc =
     sc\<lparr>scene_autoscale := False, scene_center := v + camera_axis sc\<rparr>"

definition set_camera_axis :: "vector \<Rightarrow> scene \<Rightarrow> scene" where
  "set_camera_axis v sc =
     sc\<lparr>scene_autoscale := False, scene_center := camera_pos sc + v, camera_axis := v\<rparr>"

definition set_scene_up :: "vector \<Rightarrow> scene \<Rightarrow> scene" where
  "set_scene_up v sc = sc\<lparr>scene_up := v\<rparr>"

definition set_scene_forward :: "vector \<Rightarrow> scene \<Rightarrow> scene" where
  "set_scene_forward v sc = sc\<lparr>camera_axis := mag (camera_axis sc) *\<^sub>R norm_vec v\<rparr>"

section \<open>The keyboard handler\<close>

text \<open>
  \<open>handle_keyboard_inputs\<close> polls the held keys with \<open>keysdown()\<close>, a list of key
  names; the model takes that list as an argument. The three blocks of the source
  (panning, camera roll, camera rotation) are one definition each, over the local
  variables they read and assign.
\<close>

definition pan_amount :: real where "pan_amount = 0.02"
definition rot_amount :: real where "rot_amount = 1.0"

definition panning :: "string list \<Rightarrow> vector \<Rightarrow> vector \<Rightarrow> vector \<Rightarrow> vector \<Rightarrow> vector" where
  "panning keys cam_axis cam_side_axis cam_up cam_pos =
    (let cam_pos = (if ''w'' \<in> set keys then cam_pos + pan_amount *\<^sub>R cam_axis else cam_pos);
         cam_pos = (if ''s'' \<in> set keys then cam_pos - pan_amount *\<^sub>R cam_axis else cam_pos);
         cam_pos = (if ''a'' \<in> set keys then cam_pos + pan_amount *\<^sub>R cam_side_axis else cam_pos);
         cam_pos = (if ''d'' \<in> set keys then cam_pos - pan_amount *\<^sub>R cam_side_axis else cam_pos);
         cam_pos = (if '' '' \<in> set keys then cam_pos + pan_amount *\<^sub>R cam_up else cam_pos);
         cam_pos = (if ''shift'' \<in> set keys then cam_pos - pan_amount *\<^sub>R cam_up else cam_pos)
     in cam_pos)"

definition camera_roll :: "string list \<Rightarrow> vector \<Rightarrow> vector \<times> scene \<Rightarrow> vector \<times> scene" where
  "camera_roll keys cam_axis st =
    (let (cam_up, sc) = st;
         (cam_up, sc) =
           (if ''q'' \<in> set keys \<and> ''e'' \<notin> set keys then
              (let cam_up = rotate_vec (- radians rot_amount) cam_axis cam_up;
                   cam_up = set_mag (mag cam_axis) cam_up
               in (cam_up, set_scene_up cam_up sc))
            else (cam_up, sc));
         (cam_up, sc) =
           (if ''e'' \<in> set keys \<and> ''q'' \<notin> set keys then
              (let cam_up = rotate_vec (radians rot_amount) cam_axis cam_up;
                   cam_up = set_mag (mag cam_axis) cam_up
               in (cam_up, set_scene_up cam_up sc))
            else (cam_up, sc))
     in (cam_up, sc))"

definition move_dist :: "real \<Rightarrow> real" where
  "move_dist d = sqrt (d\<^sup>2 + d\<^sup>2 - 2 * d * d * cos (radians rot_amount))"

definition camera_rotation ::
  "string list \<Rightarrow> real \<Rightarrow> vector \<Rightarrow> vector \<Rightarrow> vector \<Rightarrow> vector \<times> vector \<Rightarrow> vector \<times> vector" where
  "camera_rotation keys cam_distance cam_focus cam_side_axis cam_up st =
    (let (cam_pos, cam_axis) = st;
         d = cam_distance;
         (cam_pos, cam_axis) =
           (if ''left'' \<in> set keys \<and> ''right'' \<notin> set keys then
              (let cam_pos = cam_pos + move_dist d *\<^sub>R norm_vec cam_side_axis
               in (cam_pos, - (cam_pos - cam_focus)))
            else (cam_pos, cam_axis));
         (cam_pos, cam_axis) =
           (if ''right'' \<in> set keys \<and> ''left'' \<notin> set keys then
              (let cam_pos = cam_pos - move_dist d *\<^sub>R norm_vec cam_side_axis
               in (cam_pos, - (cam_pos - cam_focus)))
            else (cam_pos, cam_axis));
         (cam_pos, cam_axis) =
           (if ''up'' \<in> set keys \<and> ''down'' \<notin> set keys then
              (let cam_pos = cam_pos + move_dist d *\<^sub>R norm_vec cam_up
               in (cam_pos, - (cam_pos - cam_focus)))
            else (cam_pos, cam_axis));
         (cam_pos, cam_axis) =
           (if ''down'' \<in> set keys \<and> ''up'' \<notin> set keys then
              (let cam_pos = cam_pos - move_dist d *\<^sub>R norm_vec cam_up
               in (cam_pos, - (cam_pos - cam_focus)))
            else (cam_pos, cam_axis))
     in (cam_pos, cam_axis))"

definition handle_keyboard_inputs :: "string list \<Rightarrow> scene \<Rightarrow> scene" where
  "handle_keyboard_inputs keys sc =
    (let cam_distance = mag (camera_axis sc);
         cam_pos = camera_pos sc;
         cam_focus = scene_center sc;
         cam_axis = camera_axis sc;
         cam_side_axis = cross (camera_up sc) cam_axis;
         cam_up = cross cam_axis cam_side_axis;
         cam_up = set_mag (mag cam_axis) cam_up
     in if ''ctrl'' \<in> set keys then sc
        else
          (let cam_pos = panning keys cam_axis cam_side_axis cam_up cam_pos;
               sc = set_camera_pos cam_pos sc;
               (cam_up, sc) = camera_roll keys cam_axis (cam_up, sc);
               (cam_pos, cam_axis) =
                 camera_rotation keys cam_distance cam_focus cam_side_axis cam_up
                   (cam_pos, cam_axis);
               sc = set_camera_pos cam_pos sc;
               sc = set_camera_axis cam_axis sc
           in sc))"

definition reset_camera :: "scene \<Rightarrow> scene" where
  "reset_camera sc =
    (let sc = set_scene_up z_axis_vector sc;
         sc = set_camera_pos (vector 10 10 10) sc;
         sc = set_camera_axis (- camera_pos sc) sc
     in sc)"

section \<open>Scene set-up\<close>

text \<open>
  The colours of the toolkit are vectors of red, green and blue.
\<close>

definition color_white :: vector where "color_white = vector 1 1 1"

datatype widget =
  Button callback string | Menu "string list" callback | Checkbox callback string
  | Slider callback

definition append_to_caption :: "string \<Rightarrow> scene \<Rightarrow> scene" where
  "append_to_caption txt sc = sc\<lparr>scene_caption := scene_caption sc @ txt\<rparr>"

definition scene_bind :: "string \<Rightarrow> callback \<Rightarrow> scene \<Rightarrow> scene" where
  "scene_bind event cb sc = sc\<lparr>scene_bindings := scene_bindings sc @ [(event, cb)]\<rparr>"

definition newline :: string where "newline = [CHR 0x0A]"
definition tab :: string where "tab = [CHR 0x09]"

definition controls_str :: string where
  \<open>controls_str =
     ''<br><b>Controls</b><br>'' @
     ''<b>PAN</b><br>'' @
     ''W , S | <i>forward / backward</i><br>'' @
     ''A , D | <i>left / right</i><br>'' @
     ''SPACE , SHIFT | <i>up / down</i><br>'' @
     ''<b>ROTATE</b><br>'' @
     ''CTRL + LMB | <i>free spin</i><br>'' @
     ''ARROWS KEYS | <i>rotate direction</i><br>'' @
     ''Q , E | <i>roll left / right</i><br>'' @
     ''<b>ZOOM</b></br>'' @
     ''MOUSEWHEEL | <i>zoom in / out</i><br>'' @
     ''<script type="text/javascript">var arrow_keys_handler = function(e) {switch(e.keyCode){ case 37: case 39: case 38:  case 40: case 32: e.preventDefault(); break; default: break;}};window.addEventListener("keydown", arrow_keys_handler, false);</script>''\<close>

definition setup_ui_controls :: "scene \<Rightarrow> widget list \<times> scene" where
  "setup_ui_controls sc =
    (let sc = append_to_caption newline sc;
         btn_reset = Button Reset_camera ''Reset Camera'';
         sc = append_to_caption tab sc;
         menu_robots = Menu [''r1'', ''r2''] Menu_item_chosen;
         sc = append_to_caption newline sc;
         chkbox_ref = Checkbox Reference_frame_checkbox ''Show Reference Frames'';
         sc = append_to_caption tab sc;
         chkbox_rob = Checkbox Robot_visibility_checkbox ''Show Robot'';
         sc = append_to_caption newline sc;
         sc = append_to_caption ''Opacity:'' sc;
         sld_opc = Slider Opacity_slider;
         sc = append_to_caption newline sc;
         sc = append_to_caption controls_str sc
     in ([btn_reset, menu_robots, chkbox_ref, chkbox_rob, sld_opc], sc))"

definition convert_grid_to_z_up :: "scene \<Rightarrow> scene" where
  "convert_grid_to_z_up sc =
    (let sc = set_scene_forward x_axis_vector sc;
         sc = set_scene_up z_axis_vector sc;
         sc = set_camera_pos (vector 10 10 10) sc;
         sc = set_camera_axis (- camera_pos sc) sc
     in sc)"

text \<open>
  Modelled from the spec: the class \<open>GraphicsGrid\<close> of \<^verbatim>\<open>graphics/graphics_grid.py\<close> is
  not among the sources. The spec calls what \<open>init_canvas\<close> returns a grid-overlay
  handle for the caller to toggle, and the docstring of \<open>init_canvas\<close> says that the
  grid is displayed unless the argument \<open>grid\<close> is false: a new grid is visible, and
  \<open>set_visibility\<close> assigns its visibility.
\<close>

record graphics_grid =
  grid_visible :: bool

definition GraphicsGrid :: graphics_grid where
  "GraphicsGrid = \<lparr>grid_visible = True\<rparr>"

definition set_visibility :: "bool \<Rightarrow> graphics_grid \<Rightarrow> graphics_grid" where
  "set_visibility is_visible g = g\<lparr>grid_visible := is_visible\<rparr>"

text \<open>
  \<open>init_canvas\<close> also calls \<open>rate(30)\<close>, which only paces the event loop and changes
  nothing in the scene.
\<close>

definition init_canvas ::
  "int \<Rightarrow> int \<Rightarrow> string \<Rightarrow> string \<Rightarrow> bool \<Rightarrow> scene \<Rightarrow> graphics_grid \<times> scene" where
  "init_canvas height width title caption grid sc =
    (let sc = sc\<lparr>scene_background := color_white\<rparr>;
         sc = sc\<lparr>scene_width := width\<rparr>;
         sc = sc\<lparr>scene_height := height\<rparr>;
         sc = sc\<lparr>scene_autoscale := False\<rparr>;
         sc = sc\<lparr>scene_userpan := False\<rparr>;
         sc = sc\<lparr>scene_userzoom := True\<rparr>;
         sc = sc\<lparr>scene_userspin := True\<rparr>;
         sc = (if title \<noteq> [] then sc\<lparr>scene_title := title\<rparr> else sc);
         sc = (if caption \<noteq> [] then sc\<lparr>scene_caption := caption\<rparr> else sc);
         (ui_controls, sc) = setup_ui_controls sc;
         sc = convert_grid_to_z_up sc;
         sc = scene_bind ''keydown'' Handle_keyboard_inputs sc;
         graphics_grid = GraphicsGrid;
         graphics_grid = (if \<not> grid then set_visibility False graphics_grid else graphics_grid)
     in (graphics_grid, sc))"

section \<open>Reference frame axes\<close>











section \<open>The camera-relative basis and the offsets of the keys\<close>

text \<open>
  The handler works in a basis relative to the camera: forward is the camera axis, the
  side axis is \<open>up \<times> forward\<close>, and the camera's up vector is \<open>forward \<times> side\<close> with the
  length of the forward axis. A pose is valid when the side axis is not the zero vector,
  that is, when forward and up are neither zero nor collinear (the toolkit does not
  allow collinear forward and up, as the docstring of \<open>convert_grid_to_z_up\<close> tells).
\<close>

definition cam_side_axis :: "scene \<Rightarrow> vector" where
  "cam_side_axis sc = cross (camera_up sc) (camera_axis sc)"

definition cam_up :: "scene \<Rightarrow> vector" where
  "cam_up sc = set_mag (mag (camera_axis sc)) (cross (camera_axis sc) (cam_side_axis sc))"

definition valid_pose :: "scene \<Rightarrow> bool" where
  "valid_pose sc = (cam_side_axis sc \<noteq> 0)"

definition cam_focus_distance :: "scene \<Rightarrow> real" where
  "cam_focus_distance sc = mag (camera_pos sc - scene_center sc)"

text \<open>
  The roll angle of a held-key set with exactly one roll key, and the camera's up vector
  after the roll block.
\<close>

definition roll_angle :: "string list \<Rightarrow> real" where
  "roll_angle keys = (if ''q'' \<in> set keys then - radians rot_amount else radians rot_amount)"

definition rolled_up :: "string list \<Rightarrow> scene \<Rightarrow> vector" where
  "rolled_up keys sc =
     (if (''q'' \<in> set keys) = (''e'' \<in> set keys) then cam_up sc
      else set_mag (mag (camera_axis sc))
             (rotate_vec (roll_angle keys) (camera_axis sc) (cam_up sc)))"

text \<open>
  The offset that one held key contributes to the camera position: a pan key moves by
  \<open>pan_amount\<close> times its basis vector; an orbit key whose opposite is not held moves
  by the chord \<open>move_dist\<close> along its unit basis vector; every other key contributes
  nothing.
\<close>

definition key_offset :: "string list \<Rightarrow> scene \<Rightarrow> string \<Rightarrow> vector" where
  "key_offset keys sc k =
     (if k = ''w'' then pan_amount *\<^sub>R camera_axis sc
      else if k = ''s'' then - (pan_amount *\<^sub>R camera_axis sc)
      else if k = ''a'' then pan_amount *\<^sub>R cam_side_axis sc
      else if k = ''d'' then - (pan_amount *\<^sub>R cam_side_axis sc)
      else if k = '' '' then pan_amount *\<^sub>R cam_up sc
      else if k = ''shift'' then - (pan_amount *\<^sub>R cam_up sc)
      else if k = ''left'' \<and> ''right'' \<notin> set keys then
        move_dist (cam_focus_distance sc) *\<^sub>R norm_vec (cam_side_axis sc)
      else if k = ''right'' \<and> ''left'' \<notin> set keys then
        - (move_dist (cam_focus_distance sc) *\<^sub>R norm_vec (cam_side_axis sc))
      else if k = ''up'' \<and> ''down'' \<notin> set keys then
        move_dist (cam_focus_distance sc) *\<^sub>R norm_vec (rolled_up keys sc)
      else if k = ''down'' \<and> ''up'' \<notin> set keys then
        - (move_dist (cam_focus_distance sc) *\<^sub>R norm_vec (rolled_up keys sc))
      else 0)"

definition held_offset :: "string list \<Rightarrow> scene \<Rightarrow> string \<Rightarrow> vector" where
  "held_offset keys sc k = (if k \<in> set keys then key_offset keys sc k else 0)"

definition pan_offset :: "string list \<Rightarrow> scene \<Rightarrow> vector" where
  "pan_offset keys sc =
     held_offset keys sc ''w'' + held_offset keys sc ''s'' + held_offset keys sc ''a''
     + held_offset keys sc ''d'' + held_offset keys sc '' '' + held_offset keys sc ''shift''"

definition orbit_offset :: "string list \<Rightarrow> scene \<Rightarrow> vector" where
  "orbit_offset keys sc =
     held_offset keys sc ''left'' + held_offset keys sc ''right''
     + held_offset keys sc ''up'' + held_offset keys sc ''down''"

definition orbit_active :: "string list \<Rightarrow> bool" where
  "orbit_active keys =
     ((''left'' \<in> set keys \<and> ''right'' \<notin> set keys) \<or> (''right'' \<in> set keys \<and> ''left'' \<notin> set keys)
      \<or> (''up'' \<in> set keys \<and> ''down'' \<notin> set keys) \<or> (''down'' \<in> set keys \<and> ''up'' \<notin> set keys))"

text \<open>
  The pose that \<open>init_canvas\<close> and \<open>reset_camera\<close> establish: the camera at
  \<open>(10, 10, 10)\<close> looking at the origin, with the z axis up.
\<close>

definition default_scene :: scene where
  "default_scene =
     \<lparr>scene_background = color_white, scene_width = 1000, scene_height = 500,
      scene_autoscale = False, scene_userpan = False, scene_userzoom = True,
      scene_userspin = True, scene_title = [], scene_caption = [],
      scene_center = vector 0 0 0, camera_axis = vector (-10) (-10) (-10),
      scene_up = vector 0 0 1, scene_bindings = [(''keydown'', Handle_keyboard_inputs)]\<rparr>"

section \<open>Properties\<close>

subsection \<open>Vector algebra\<close>

lemma vector_eq_iff: "a = b \<longleftrightarrow> vec_x a = vec_x b \<and> vec_y a = vec_y b \<and> vec_z a = vec_z b"
  by (cases a, cases b) simp

lemma vec_sel_simps:
  "vec_x (a + b) = vec_x a + vec_x b" "vec_y (a + b) = vec_y a + vec_y b" "vec_z (a + b) = vec_z a + vec_z b"
  "vec_x (a - b) = vec_x a - vec_x b" "vec_y (a - b) = vec_y a - vec_y b" "vec_z (a - b) = vec_z a - vec_z b"
  "vec_x (- a) = - vec_x a" "vec_y (- a) = - vec_y a" "vec_z (- a) = - vec_z a"
  "vec_x (r *\<^sub>R a) = r * vec_x a" "vec_y (r *\<^sub>R a) = r * vec_y a" "vec_z (r *\<^sub>R a) = r * vec_z a"
  "vec_x (0::vector) = 0" "vec_y (0::vector) = 0" "vec_z (0::vector) = 0"
  by (simp_all add: plus_vector_def minus_vector_def uminus_vector_def scaleR_vector_def zero_vector_def)

lemma mag_nonneg: "0 \<le> mag a"
  by (simp add: mag_def)

lemma mag_sq: "(mag a)\<^sup>2 = dot a a"
  by (simp add: mag_def dot_def power2_eq_square)

lemma mag_eq_0_iff: "mag a = 0 \<longleftrightarrow> a = 0"
proof
  assume "mag a = 0"
  then have "(vec_x a)\<^sup>2 + (vec_y a)\<^sup>2 + (vec_z a)\<^sup>2 = 0"
    by (simp add: mag_def)
  then have "vec_x a = 0 \<and> vec_y a = 0 \<and> vec_z a = 0"
    by (simp add: add_nonneg_eq_0_iff)
  then show "a = 0" by (simp add: vector_eq_iff vec_sel_simps)
next
  assume "a = 0" then show "mag a = 0" by (simp add: mag_def vec_sel_simps)
qed

lemma mag_pos_iff: "0 < mag a \<longleftrightarrow> a \<noteq> 0"
  using mag_nonneg [of a] mag_eq_0_iff [of a] by linarith

lemma mag_scaleR: "mag (r *\<^sub>R a) = \<bar>r\<bar> * mag a"
proof -
  have "(r * vec_x a)\<^sup>2 + (r * vec_y a)\<^sup>2 + (r * vec_z a)\<^sup>2
      = r\<^sup>2 * ((vec_x a)\<^sup>2 + (vec_y a)\<^sup>2 + (vec_z a)\<^sup>2)"
    by (simp add: power_mult_distrib algebra_simps)
  then show ?thesis
    by (simp add: mag_def vec_sel_simps real_sqrt_mult)
qed

lemma mag_uminus: "mag (- a) = mag a"
  by (simp add: mag_def vec_sel_simps)

lemma norm_vec_scaleR: "norm_vec a = (1 / mag a) *\<^sub>R a"
  by (cases "0 < mag a")
    (use mag_nonneg [of a] in \<open>auto simp: norm_vec_def vector_eq_iff vec_sel_simps mag_eq_0_iff\<close>)

lemma mag_norm_vec: "a \<noteq> 0 \<Longrightarrow> mag (norm_vec a) = 1"
  using mag_pos_iff [of a] by (simp add: norm_vec_scaleR mag_scaleR)

lemma norm_vec_zero: "norm_vec 0 = 0"
  by (simp add: norm_vec_def mag_def vec_sel_simps zero_vector_def)

lemma mag_set_mag: "a \<noteq> 0 \<Longrightarrow> mag (set_mag m a) = \<bar>m\<bar>"
  by (simp add: set_mag_def mag_scaleR mag_norm_vec)

lemma set_mag_self: "set_mag (mag a) a = a"
  by (cases "a = 0")
    (simp_all add: set_mag_def norm_vec_scaleR mag_eq_0_iff)

lemma dot_commute: "dot a b = dot b a"
  by (simp add: dot_def mult.commute)

lemma dot_simps:
  "dot (a + b) c = dot a c + dot b c" "dot c (a + b) = dot c a + dot c b"
  "dot (a - b) c = dot a c - dot b c" "dot c (a - b) = dot c a - dot c b"
  "dot (r *\<^sub>R a) c = r * dot a c" "dot c (r *\<^sub>R a) = r * dot c a"
  "dot (- a) c = - dot a c" "dot c (- a) = - dot c a"
  "dot 0 c = 0" "dot c 0 = 0"
  by (simp_all add: dot_def vec_sel_simps algebra_simps)

lemma dot_cross_self: "dot a (cross a b) = 0" "dot b (cross a b) = 0"
  "dot (cross a b) a = 0" "dot (cross a b) b = 0"
  by (simp_all add: dot_def cross_def algebra_simps)

lemma cross_scaleR: "cross (r *\<^sub>R a) b = r *\<^sub>R cross a b" "cross a (r *\<^sub>R b) = r *\<^sub>R cross a b"
  by (simp_all add: cross_def vector_eq_iff vec_sel_simps algebra_simps)

lemma cross_zero_right: "cross a 0 = 0"
  by (simp add: cross_def vector_eq_iff vec_sel_simps)

lemma lagrange: "dot (cross a b) (cross a b) = dot a a * dot b b - (dot a b)\<^sup>2"
  by (simp add: dot_def cross_def power2_eq_square algebra_simps)

lemma mag_cross_perp: "dot a b = 0 \<Longrightarrow> mag (cross a b) = mag a * mag b"
proof -
  assume "dot a b = 0"
  then have "(mag (cross a b))\<^sup>2 = (mag a * mag b)\<^sup>2"
    by (simp add: mag_sq lagrange power_mult_distrib)
  then show ?thesis
    using mag_nonneg [of "cross a b"] mag_nonneg [of a] mag_nonneg [of b]
    by (simp add: power2_eq_iff_nonneg)
qed

lemma dot_norm_vec: "dot (norm_vec a) b = dot a b / mag a" "dot b (norm_vec a) = dot b a / mag a"
  by (simp_all add: norm_vec_scaleR dot_simps)

lemma dot_norm_vec_self: "a \<noteq> 0 \<Longrightarrow> dot (norm_vec a) (norm_vec a) = 1"
  using mag_norm_vec [of a] mag_sq [of "norm_vec a"] by simp

lemma mag_sq_perp_step:
  assumes "dot a b = 0" and "b \<noteq> 0"
  shows "(mag (a - r *\<^sub>R norm_vec b))\<^sup>2 = (mag a)\<^sup>2 + r\<^sup>2"
proof -
  have n: "dot a (norm_vec b) = 0" "dot (norm_vec b) a = 0"
    using assms(1) by (simp_all add: dot_norm_vec dot_commute)
  have u: "dot (norm_vec b) (norm_vec b) = 1"
    by (rule dot_norm_vec_self [OF assms(2)])
  have "dot (a - r *\<^sub>R norm_vec b) (a - r *\<^sub>R norm_vec b) = dot a a + r\<^sup>2"
    by (simp add: dot_simps n u power2_eq_square)
  then show ?thesis by (simp only: mag_sq)
qed

subsection \<open>Rotation of a vector perpendicular to the axis\<close>

lemma rotate_rodrigues:
  "rotate_vec ang ax v =
     cos ang *\<^sub>R v + sin ang *\<^sub>R cross (norm_vec ax) v
       + ((1 - cos ang) * dot (norm_vec ax) v) *\<^sub>R norm_vec ax"
  by (simp add: rotate_vec_def Let_def vector_eq_iff vec_sel_simps cross_def dot_def algebra_simps)

lemma rotate_perp:
  assumes "dot ax v = 0"
  shows "rotate_vec ang ax v = cos ang *\<^sub>R v + sin ang *\<^sub>R cross (norm_vec ax) v"
  using assms
  by (simp add: rotate_rodrigues dot_norm_vec vector_eq_iff vec_sel_simps)

lemma dot_rotate_perp_self:
  assumes "dot ax v = 0"
  shows "dot (rotate_vec ang ax v) v = cos ang * dot v v"
  by (simp add: rotate_perp [OF assms] dot_simps dot_cross_self)

lemma dot_rotate_perp_axis:
  assumes "dot ax v = 0"
  shows "dot (rotate_vec ang ax v) ax = 0"
proof -
  have "dot (cross (norm_vec ax) v) ax = 0"
    by (simp add: norm_vec_scaleR cross_scaleR dot_simps dot_cross_self)
  then show ?thesis
    using assms by (simp add: rotate_perp [OF assms] dot_simps dot_commute)
qed

lemma mag_rotate_perp:
  assumes "dot ax v = 0" and "ax \<noteq> 0"
  shows "mag (rotate_vec ang ax v) = mag v"
proof -
  let ?n = "norm_vec ax"
  have nv: "dot ?n v = 0" using assms(1) by (simp add: dot_norm_vec)
  have cc: "dot (cross ?n v) (cross ?n v) = dot v v"
    by (simp add: lagrange nv dot_norm_vec_self [OF assms(2)])
  have "dot (rotate_vec ang ax v) (rotate_vec ang ax v)
      = (cos ang)\<^sup>2 * dot v v + (sin ang)\<^sup>2 * dot v v"
    by (simp add: rotate_perp [OF assms(1)] dot_simps dot_cross_self cc power2_eq_square
        algebra_simps)
  also have "\<dots> = dot v v"
    by (simp add: distrib_right [symmetric])
  finally have "(mag (rotate_vec ang ax v))\<^sup>2 = (mag v)\<^sup>2"
    by (simp add: mag_sq)
  then show ?thesis
    using mag_nonneg by (simp add: power2_eq_iff_nonneg)
qed

lemma dot_rotate_axis:
  assumes "ax \<noteq> 0"
  shows "dot (rotate_vec ang ax v) ax = dot v ax"
proof -
  have c: "dot (cross (norm_vec ax) v) ax = 0"
    by (simp add: norm_vec_scaleR cross_scaleR dot_simps dot_cross_self)
  have m: "mag ax \<noteq> 0" using assms by (simp add: mag_eq_0_iff)
  have "dot ax ax = mag ax * mag ax"
    by (simp add: mag_sq [symmetric] power2_eq_square)
  then have n: "dot ax ax / (mag ax * mag ax) = 1"
    using m by simp
  have "dot (rotate_vec ang ax v) ax =
      cos ang * dot v ax + (1 - cos ang) * dot ax v * (dot ax ax / (mag ax * mag ax))"
    by (simp add: rotate_rodrigues dot_simps c dot_norm_vec)
  also have "\<dots> = dot v ax"
    unfolding n by (simp add: dot_commute algebra_simps)
  finally show ?thesis .
qed

subsection \<open>The chord of one degree\<close>

lemma sin_poly7_bound:
  "\<bar>sin x - (x - x ^ 3 / 6 + x ^ 5 / 120)\<bar> \<le> \<bar>x\<bar> ^ 7 / 5040" for x :: real
proof -
  have c: "sin_coeff (Suc 0) = 1" "sin_coeff 2 = 0" "sin_coeff 3 = - 1 / 6"
    "sin_coeff 4 = 0" "sin_coeff 5 = 1 / 120" "sin_coeff 6 = 0"
    by (simp_all add: sin_coeff_def fact_numeral)
  have i: "{..<7::nat} = {0, 1, 2, 3, 4, 5, 6}" by auto
  have s: "(\<Sum>m<7. sin_coeff m * x ^ m) = x - x ^ 3 / 6 + x ^ 5 / 120"
    unfolding i by (simp add: c)
  have f: "inverse (fact 7 :: real) = 1 / 5040"
    by (simp add: fact_numeral)
  show ?thesis
    using Maclaurin_sin_bound [of x 7] unfolding s f by simp
qed

lemma pi_less: "pi < 31417 / 10000"
proof (rule ccontr)
  assume "\<not> pi < 31417 / 10000"
  then have le: "(31417 / 60000 :: real) \<le> pi / 6" by simp
  have "sin (31417 / 60000 :: real) \<le> sin (pi / 6)"
    using le pi_ge_two by (intro sin_monotone_2pi_le) simp_all
  then have "sin (31417 / 60000 :: real) \<le> 1 / 2" by (simp add: sin_30)
  moreover have "(1 / 2 :: real) <
      (31417 / 60000 - (31417 / 60000) ^ 3 / 6 + (31417 / 60000) ^ 5 / 120)
       - \<bar>31417 / 60000\<bar> ^ 7 / 5040"
    by (simp add: power_divide)
  ultimately show False
    using sin_poly7_bound [of "31417 / 60000"] by linarith
qed

lemma pi_greater: "31415 / 10000 < pi"
proof (rule ccontr)
  assume "\<not> 31415 / 10000 < pi"
  then have le: "pi / 6 \<le> (31415 / 60000 :: real)" by simp
  have "sin (pi / 6) \<le> sin (31415 / 60000 :: real)"
    using le pi_ge_two by (intro sin_monotone_2pi_le) simp_all
  then have "1 / 2 \<le> sin (31415 / 60000 :: real)" by (simp add: sin_30)
  moreover have "(31415 / 60000 - (31415 / 60000) ^ 3 / 6 + (31415 / 60000) ^ 5 / 120)
       + \<bar>31415 / 60000\<bar> ^ 7 / 5040 < (1 / 2 :: real)"
    by (simp add: power_divide)
  ultimately show False
    using sin_poly7_bound [of "31415 / 60000"] by linarith
qed

lemma sin_half_degree_upper: "sin (pi / 360) < 31417 / 3600000"
proof -
  have "sin (pi / 360) \<le> pi / 360"
    by (rule sin_x_le_x) simp
  then show ?thesis using pi_less by simp
qed

lemma sin_half_degree_lower: "87262 / 10000000 < sin (pi / 360)"
proof -
  have "sin (31415 / 3600000 :: real) \<le> sin (pi / 360)"
    using pi_greater pi_ge_two by (intro sin_monotone_2pi_le) simp_all
  moreover have "(87262 / 10000000 :: real) <
      (31415 / 3600000 - (31415 / 3600000) ^ 3 / 6 + (31415 / 3600000) ^ 5 / 120)
       - \<bar>31415 / 3600000\<bar> ^ 7 / 5040"
    by (simp add: power_divide)
  ultimately show ?thesis
    using sin_poly7_bound [of "31415 / 3600000"] by linarith
qed

lemma move_dist_formula:
  "move_dist d = sqrt (2 * d\<^sup>2 - 2 * d\<^sup>2 * cos (radians 1))"
  by (simp add: move_dist_def rot_amount_def power2_eq_square)

lemma move_dist_abs: "move_dist d = \<bar>2 * d * sin (pi / 360)\<bar>"
proof -
  have c: "cos (radians rot_amount) = 1 - 2 * (sin (pi / 360))\<^sup>2"
    using cos_double_sin [of "pi / 360"] by (simp add: radians_def rot_amount_def)
  have "d\<^sup>2 + d\<^sup>2 - 2 * d * d * cos (radians rot_amount) = (2 * d * sin (pi / 360))\<^sup>2"
    unfolding c by (simp add: power2_eq_square algebra_simps)
  then show ?thesis
    by (simp only: move_dist_def real_sqrt_abs)
qed

lemma move_dist_sq: "(move_dist d)\<^sup>2 = 4 * d\<^sup>2 * (sin (pi / 360))\<^sup>2"
  by (simp add: move_dist_abs power_mult_distrib)

lemma move_dist_sin: "0 \<le> d \<Longrightarrow> move_dist d = 2 * d * sin (pi / 360)"
  using sin_half_degree_lower by (simp add: move_dist_abs abs_mult)

lemma move_dist_nonneg: "0 \<le> move_dist d"
  by (simp add: move_dist_abs)

lemma move_dist_example: "\<bar>move_dist 17.32 - 0.3023\<bar> < 0.00005"
proof -
  have m: "move_dist 17.32 = (3464 / 100) * sin (pi / 360)"
    using move_dist_sin [of "17.32"] by simp
  have l: "30225 / 100000 < (3464 / 100) * sin (pi / 360)"
    using sin_half_degree_lower by linarith
  have u: "(3464 / 100) * sin (pi / 360) < 30235 / 100000"
    using sin_half_degree_upper by linarith
  have "move_dist 17.32 - 0.3023 < 0.00005"
    unfolding m using u by simp
  moreover have "- (move_dist 17.32 - 0.3023) < 0.00005"
    unfolding m using l by simp
  ultimately show ?thesis
    by (rule abs_less_iff [THEN iffD2, OF conjI])
qed

lemma move_dist_pos: "0 < d \<Longrightarrow> 0 < move_dist d"
  using sin_half_degree_lower by (simp add: move_dist_sin)

lemma cos_one_degree_less: "cos (radians 1) < 1"
proof -
  have "0 < (sin (pi / 360))\<^sup>2"
    using sin_half_degree_lower by simp
  then show ?thesis
    using cos_double_sin [of "pi / 360"] by (simp add: radians_def)
qed

lemma mag_orbit_step: "b \<noteq> 0 \<Longrightarrow> mag (move_dist d *\<^sub>R norm_vec b) = move_dist d"
  using move_dist_nonneg [of d] by (simp add: mag_scaleR mag_norm_vec)

subsection \<open>The blocks of the handler\<close>

lemma cam_focus_distance_axis: "cam_focus_distance sc = mag (camera_axis sc)"
proof -
  have "camera_pos sc - scene_center sc = - camera_axis sc"
    by (simp add: camera_pos_def)
  then show ?thesis by (simp add: cam_focus_distance_def mag_uminus)
qed

lemma if_add_offset:
  "(if c then (p::vector) + v else p) = p + (if c then v else 0)"
  "(if c then (p::vector) - v else p) = p + (if c then - v else 0)"
  by simp_all

lemma panning_offset:
  "panning keys (camera_axis sc) (cam_side_axis sc) (cam_up sc) p = p + pan_offset keys sc"
  unfolding panning_def Let_def if_add_offset pan_offset_def held_offset_def key_offset_def
  by (simp add: add.assoc)

lemma camera_roll_result:
  "camera_roll keys (camera_axis sc0) (cam_up sc0, sc) =
     (rolled_up keys sc0,
      if (''q'' \<in> set keys) = (''e'' \<in> set keys) then sc
      else set_scene_up (rolled_up keys sc0) sc)"
  by (simp add: camera_roll_def rolled_up_def roll_angle_def Let_def)

lemma camera_rotation_result:
  "camera_rotation keys (mag (camera_axis sc)) focus (cam_side_axis sc) (rolled_up keys sc) (p, a) =
     (p + orbit_offset keys sc,
      if orbit_active keys then focus - (p + orbit_offset keys sc) else a)"
  by (simp add: camera_rotation_def orbit_offset_def held_offset_def key_offset_def
      orbit_active_def cam_focus_distance_axis Let_def)

lemma orbit_offset_inactive: "\<not> orbit_active keys \<Longrightarrow> orbit_offset keys sc = 0"
  by (auto simp: orbit_active_def orbit_offset_def held_offset_def key_offset_def)

lemma set_camera_pos_axis:
  "set_camera_axis a (set_camera_pos p sc) =
     sc\<lparr>scene_autoscale := False, scene_center := p + a, camera_axis := a\<rparr>"
  by (simp add: set_camera_axis_def set_camera_pos_def camera_pos_def)

lemma handle_keyboard_inputs_result:
  assumes "''ctrl'' \<notin> set keys"
  shows "handle_keyboard_inputs keys sc =
    sc\<lparr>scene_autoscale := False,
        scene_center :=
          (if orbit_active keys then scene_center sc
           else scene_center sc + pan_offset keys sc),
        camera_axis :=
          (if orbit_active keys
           then scene_center sc - (camera_pos sc + pan_offset keys sc + orbit_offset keys sc)
           else camera_axis sc),
        scene_up :=
          (if (''q'' \<in> set keys) = (''e'' \<in> set keys) then scene_up sc
           else rolled_up keys sc)\<rparr>"
    (is "_ = ?rhs")
proof -
  have "handle_keyboard_inputs keys sc =
      (let p1 = panning keys (camera_axis sc) (cam_side_axis sc) (cam_up sc) (camera_pos sc);
           (cu, sc1) = camera_roll keys (camera_axis sc) (cam_up sc, set_camera_pos p1 sc);
           (p2, a2) = camera_rotation keys (mag (camera_axis sc)) (scene_center sc)
               (cam_side_axis sc) cu (p1, camera_axis sc)
       in set_camera_axis a2 (set_camera_pos p2 sc1))"
    using assms by (simp add: handle_keyboard_inputs_def Let_def cam_side_axis_def cam_up_def)
  also have "\<dots> = ?rhs"
    by (simp add: panning_offset camera_roll_result camera_rotation_result Let_def
        set_camera_axis_def set_camera_pos_def set_scene_up_def camera_pos_def
        orbit_offset_inactive)
  finally show ?thesis .
qed

lemma camera_pos_result:
  assumes "''ctrl'' \<notin> set keys"
  shows "camera_pos (handle_keyboard_inputs keys sc) =
           camera_pos sc + pan_offset keys sc + orbit_offset keys sc"
  by (simp add: handle_keyboard_inputs_result [OF assms] camera_pos_def orbit_offset_inactive
      vector_eq_iff vec_sel_simps)


lemma key_offset_set:
  assumes "set ks = set ks'"
  shows "key_offset ks sc = key_offset ks' sc"
  using assms by (simp add: key_offset_def rolled_up_def roll_angle_def fun_eq_iff)



lemma no_move_keys:
  assumes "set keys \<inter> {''w'', ''s'', ''a'', ''d'', '' '', ''shift'', ''left'', ''right'', ''up'', ''down''} = {}"
  shows "pan_offset keys sc = 0" and "orbit_offset keys sc = 0"
  using assms by (auto simp: pan_offset_def orbit_offset_def held_offset_def)

lemma single_orbit_key:
  assumes "set keys \<inter> {''left'', ''right'', ''up'', ''down''} = {k}"
  shows "orbit_offset keys sc = key_offset keys sc k" and "orbit_active keys"
    and "k = ''left'' \<or> k = ''right'' \<or> k = ''up'' \<or> k = ''down''"
    and "k = ''left'' \<Longrightarrow> ''right'' \<notin> set keys"
    and "k = ''right'' \<Longrightarrow> ''left'' \<notin> set keys"
    and "k = ''up'' \<Longrightarrow> ''down'' \<notin> set keys"
    and "k = ''down'' \<Longrightarrow> ''up'' \<notin> set keys"
proof -
  have mem: "x \<in> set keys \<longleftrightarrow> x = k"
    if "x \<in> {''left'', ''right'', ''up'', ''down''}" for x
    using assms that by blast
  have l: "''left'' \<in> set keys \<longleftrightarrow> ''left'' = k" by (rule mem) simp
  have r: "''right'' \<in> set keys \<longleftrightarrow> ''right'' = k" by (rule mem) simp
  have u: "''up'' \<in> set keys \<longleftrightarrow> ''up'' = k" by (rule mem) simp
  have d: "''down'' \<in> set keys \<longleftrightarrow> ''down'' = k" by (rule mem) simp
  show k: "k = ''left'' \<or> k = ''right'' \<or> k = ''up'' \<or> k = ''down''"
    using assms by blast
  show "orbit_offset keys sc = key_offset keys sc k"
    using k by (auto simp: orbit_offset_def held_offset_def key_offset_def l r u d)
  show "orbit_active keys"
    using k by (auto simp: orbit_active_def l r u d)
  show "k = ''left'' \<Longrightarrow> ''right'' \<notin> set keys" by (simp add: r)
  show "k = ''right'' \<Longrightarrow> ''left'' \<notin> set keys" by (simp add: l)
  show "k = ''up'' \<Longrightarrow> ''down'' \<notin> set keys" by (simp add: d)
  show "k = ''down'' \<Longrightarrow> ''up'' \<notin> set keys" by (simp add: u)
qed

lemma filter_roll_keys:
  "k \<in> set (filter (\<lambda>k. k \<noteq> ''q'' \<and> k \<noteq> ''e'') keys) \<longleftrightarrow>
     k \<in> set keys \<and> k \<noteq> ''q'' \<and> k \<noteq> ''e''"
  by simp

lemma pan_offset_roll_free:
  "pan_offset (filter (\<lambda>k. k \<noteq> ''q'' \<and> k \<noteq> ''e'') keys) sc = pan_offset keys sc"
  by (simp add: pan_offset_def held_offset_def key_offset_def)

lemma orbit_offset_roll_free:
  assumes "(''up'' \<in> set keys) = (''down'' \<in> set keys)"
  shows "orbit_offset (filter (\<lambda>k. k \<noteq> ''q'' \<and> k \<noteq> ''e'') keys) sc = orbit_offset keys sc"
  using assms by (simp add: orbit_offset_def held_offset_def key_offset_def)

subsection \<open>The camera-relative basis\<close>

lemma valid_pose_axis: "valid_pose sc \<Longrightarrow> camera_axis sc \<noteq> 0"
  by (auto simp: valid_pose_def cam_side_axis_def cross_zero_right)

lemma dot_axis_side: "dot (camera_axis sc) (cam_side_axis sc) = 0"
  by (simp add: cam_side_axis_def dot_cross_self)

lemma raw_up_nonzero:
  assumes "valid_pose sc"
  shows "cross (camera_axis sc) (cam_side_axis sc) \<noteq> 0"
proof -
  have "mag (cross (camera_axis sc) (cam_side_axis sc)) = mag (camera_axis sc) * mag (cam_side_axis sc)"
    by (rule mag_cross_perp) (rule dot_axis_side)
  moreover have "0 < mag (camera_axis sc)" "0 < mag (cam_side_axis sc)"
    using assms valid_pose_axis [OF assms] by (simp_all add: mag_pos_iff valid_pose_def)
  ultimately have "0 < mag (cross (camera_axis sc) (cam_side_axis sc))" by simp
  then show ?thesis by (simp add: mag_pos_iff)
qed

lemma mag_cam_up: "valid_pose sc \<Longrightarrow> mag (cam_up sc) = mag (camera_axis sc)"
  using mag_nonneg [of "camera_axis sc"]
  by (simp add: cam_up_def mag_set_mag raw_up_nonzero)

lemma cam_up_nonzero: "valid_pose sc \<Longrightarrow> cam_up sc \<noteq> 0"
  using mag_cam_up [of sc] valid_pose_axis [of sc] mag_eq_0_iff by metis

lemma dot_axis_cam_up: "dot (camera_axis sc) (cam_up sc) = 0"
  by (simp add: cam_up_def set_mag_def dot_simps dot_norm_vec dot_cross_self)

lemma rolled_up_rotate:
  assumes "valid_pose sc" and "(''q'' \<in> set keys) \<noteq> (''e'' \<in> set keys)"
  shows "rolled_up keys sc = rotate_vec (roll_angle keys) (camera_axis sc) (cam_up sc)"
proof -
  have "mag (rotate_vec (roll_angle keys) (camera_axis sc) (cam_up sc)) = mag (camera_axis sc)"
    using mag_rotate_perp [OF dot_axis_cam_up valid_pose_axis [OF assms(1)]]
    by (simp add: mag_cam_up [OF assms(1)])
  then have "set_mag (mag (camera_axis sc)) (rotate_vec (roll_angle keys) (camera_axis sc) (cam_up sc))
      = rotate_vec (roll_angle keys) (camera_axis sc) (cam_up sc)"
    using set_mag_self [of "rotate_vec (roll_angle keys) (camera_axis sc) (cam_up sc)"] by simp
  then show ?thesis
    using assms(2) by (simp add: rolled_up_def)
qed

lemma cos_roll_angle: "cos (roll_angle keys) = cos (radians 1)"
  by (simp add: roll_angle_def rot_amount_def)

lemma rolled_up_nonzero: "valid_pose sc \<Longrightarrow> rolled_up keys sc \<noteq> 0"
proof (cases "(''q'' \<in> set keys) = (''e'' \<in> set keys)")
  case True
  assume "valid_pose sc"
  then show ?thesis using True by (simp add: rolled_up_def cam_up_nonzero)
next
  case False
  assume v: "valid_pose sc"
  have "mag (rolled_up keys sc) = mag (cam_up sc)"
    using mag_rotate_perp [OF dot_axis_cam_up valid_pose_axis [OF v]]
    by (simp add: rolled_up_rotate [OF v False])
  then show ?thesis
    using cam_up_nonzero [OF v] mag_eq_0_iff by metis
qed

lemma scene_up_one_roll_key:
  assumes "''ctrl'' \<notin> set keys" and "(''q'' \<in> set keys) \<noteq> (''e'' \<in> set keys)"
    and "valid_pose sc"
  shows "scene_up (handle_keyboard_inputs keys sc) =
           rotate_vec (roll_angle keys) (camera_axis sc) (cam_up sc)"
  using assms(2)
  by (simp add: handle_keyboard_inputs_result [OF assms(1)] rolled_up_rotate [OF assms(3,2)])

lemma roll_turns_up_orbit:
  assumes v: "valid_pose sc"
  shows "camera_pos (handle_keyboard_inputs [''q'', ''up''] sc) \<noteq>
         camera_pos (handle_keyboard_inputs [''up''] sc)"
proof
  let ?a = "camera_axis sc"
  let ?m = "move_dist (cam_focus_distance sc)"
  let ?r = "rolled_up [''q'', ''up''] sc"
  assume eq: "camera_pos (handle_keyboard_inputs [''q'', ''up''] sc) =
      camera_pos (handle_keyboard_inputs [''up''] sc)"
  have p1: "camera_pos (handle_keyboard_inputs [''q'', ''up''] sc) =
      camera_pos sc + ?m *\<^sub>R norm_vec ?r"
    by (simp add: camera_pos_result pan_offset_def orbit_offset_def held_offset_def key_offset_def)
  have p2: "camera_pos (handle_keyboard_inputs [''up''] sc) =
      camera_pos sc + ?m *\<^sub>R norm_vec (cam_up sc)"
    by (simp add: camera_pos_result pan_offset_def orbit_offset_def held_offset_def key_offset_def
        rolled_up_def)
  have L: "0 < mag ?a"
    using valid_pose_axis [OF v] by (simp add: mag_pos_iff)
  then have "0 < ?m"
    by (simp add: cam_focus_distance_axis move_dist_pos)
  moreover have "?m *\<^sub>R norm_vec ?r = ?m *\<^sub>R norm_vec (cam_up sc)"
    using eq unfolding p1 p2 by simp
  ultimately have n: "norm_vec ?r = norm_vec (cam_up sc)"
    by simp
  have r: "?r = rotate_vec (- radians 1) ?a (cam_up sc)"
    using rolled_up_rotate [OF v, of "[''q'', ''up'']"] by (simp add: roll_angle_def rot_amount_def)
  have mr: "mag ?r = mag ?a"
    unfolding r using mag_rotate_perp [OF dot_axis_cam_up valid_pose_axis [OF v]]
    by (simp add: mag_cam_up [OF v])
  have "?r = cam_up sc"
    using n L by (simp add: norm_vec_scaleR mr mag_cam_up [OF v])
  then have "dot ?r (cam_up sc) = dot (cam_up sc) (cam_up sc)"
    by simp
  then have "cos (radians 1) * dot (cam_up sc) (cam_up sc) = dot (cam_up sc) (cam_up sc)"
    unfolding r by (simp add: dot_rotate_perp_self [OF dot_axis_cam_up])
  moreover have "0 < dot (cam_up sc) (cam_up sc)"
    using L by (simp add: mag_sq [symmetric] mag_cam_up [OF v])
  ultimately have "cos (radians 1) = 1"
    by simp
  then show False
    using cos_one_degree_less by simp
qed

lemma rescaled_rotation_of_up:
  assumes "ax \<noteq> 0" and "dot u ax \<noteq> 0" and "dot w ax = 0"
  shows "w \<noteq> set_mag (mag ax) (rotate_vec ang ax u)"
proof
  let ?r = "rotate_vec ang ax u"
  assume "w = set_mag (mag ax) ?r"
  then have "dot w ax = (mag ax / mag ?r) * dot ?r ax"
    by (simp add: set_mag_def norm_vec_scaleR dot_simps)
  then have z: "(mag ax / mag ?r) * dot u ax = 0"
    using assms(3) by (simp add: dot_rotate_axis [OF assms(1)])
  have "?r \<noteq> 0"
    using assms(2) dot_rotate_axis [OF assms(1), of ang u] by (auto simp: dot_simps)
  then have "mag ax / mag ?r \<noteq> 0"
    using assms(1) by (simp add: mag_eq_0_iff)
  then show False
    using z assms(2) by simp
qed

lemma orbit_distance_sq:
  assumes v: "valid_pose sc"
    and k: "k = ''left'' \<or> k = ''right'' \<or> k = ''up'' \<or> k = ''down''"
  shows "(cam_focus_distance (handle_keyboard_inputs [k] sc))\<^sup>2 =
      (cam_focus_distance sc)\<^sup>2 + (move_dist (cam_focus_distance sc))\<^sup>2"
proof -
  let ?m = "move_dist (cam_focus_distance sc)"
  let ?a = "camera_axis sc"
  have ctrl: "''ctrl'' \<notin> set [k]" using k by auto
  have act: "orbit_active [k]" using k by (auto simp: orbit_active_def)
  have pan: "pan_offset [k] sc = 0"
    using k by (auto simp: pan_offset_def held_offset_def)
  have orb: "orbit_offset [k] sc = key_offset [k] sc k"
    using k by (auto simp: orbit_offset_def held_offset_def key_offset_def)
  have axis: "camera_axis (handle_keyboard_inputs [k] sc) = ?a - key_offset [k] sc k"
    by (simp add: handle_keyboard_inputs_result [OF ctrl] act pan orb camera_pos_def
        vector_eq_iff vec_sel_simps)
  have side: "(mag (?a - r *\<^sub>R norm_vec (cam_side_axis sc)))\<^sup>2 = (mag ?a)\<^sup>2 + r\<^sup>2" for r
    using v by (intro mag_sq_perp_step dot_axis_side) (simp add: valid_pose_def)
  have upw: "(mag (?a - r *\<^sub>R norm_vec (cam_up sc)))\<^sup>2 = (mag ?a)\<^sup>2 + r\<^sup>2" for r
    by (intro mag_sq_perp_step dot_axis_cam_up cam_up_nonzero [OF v])
  have "(mag (?a - key_offset [k] sc k))\<^sup>2 = (mag ?a)\<^sup>2 + ?m\<^sup>2"
    using k side [of ?m] side [of "- ?m"] upw [of ?m] upw [of "- ?m"]
    by (auto simp: key_offset_def rolled_up_def)
  then show ?thesis
    by (simp add: cam_focus_distance_axis axis)
qed

subsection \<open>The default pose\<close>

lemma default_scene_simps:
  "scene_center default_scene = vector 0 0 0"
  "camera_axis default_scene = vector (-10) (-10) (-10)"
  "scene_up default_scene = vector 0 0 1"
  "camera_pos default_scene = vector 10 10 10"
  "cam_side_axis default_scene = vector 10 (-10) 0"
  by (simp_all add: default_scene_def camera_pos_def cam_side_axis_def camera_up_def cross_def
      minus_vector_def)

lemma valid_pose_default: "valid_pose default_scene"
  by (simp add: valid_pose_def default_scene_simps zero_vector_def)

section \<open>The claims\<close>

text \<open>
  C1: while the free-spin modifier key \<open>ctrl\<close> is held, one call of
  \<open>handle_keyboard_inputs\<close> leaves the whole scene as it was (camera position, camera
  axis and up vector among the rest), whatever other keys are held.
\<close>

theorem ctrl_held_no_mutation:
  "''ctrl'' \<in> set keys \<Longrightarrow> handle_keyboard_inputs keys sc = sc"
  by (simp add: handle_keyboard_inputs_def Let_def)

theorem ctrl_held_no_mutation_witness:
  "handle_keyboard_inputs [''w'', ''ctrl'', ''left'', ''q''] default_scene = default_scene"
  using ctrl_held_no_mutation [of "[''w'', ''ctrl'', ''left'', ''q'']" default_scene] by simp

text \<open>
  C2 says that a single-key orbit step leaves the distance between camera and focus as
  it was. The handler moves the camera along the side axis, which is perpendicular to the
  line of sight, by the chord of one degree: the new distance is the hypotenuse
  \<open>sqrt (d\<^sup>2 + chord\<^sup>2)\<close>, not \<open>d\<close>. From the default pose (distance \<open>sqrt 300\<close>, about
  17.32) the key \<open>left\<close> alone takes the camera more than 0.002 units further from the
  focus.
\<close>

theorem orbit_left_distance_grows:
  "cam_focus_distance default_scene + 1 / 500
     < cam_focus_distance (handle_keyboard_inputs [''left''] default_scene)"
proof -
  let ?d = "cam_focus_distance default_scene"
  let ?D = "cam_focus_distance (handle_keyboard_inputs [''left''] default_scene)"
  have d2: "?d\<^sup>2 = 300"
    by (simp add: cam_focus_distance_axis mag_sq dot_def default_scene_simps)
  have "?d\<^sup>2 \<le> (1733 / 100)\<^sup>2"
    unfolding d2 by (simp add: power2_eq_square)
  then have d: "?d \<le> 1733 / 100"
    by (rule power2_le_imp_le) simp
  have "(87262 / 10000000)\<^sup>2 < (sin (pi / 360))\<^sup>2"
    using sin_half_degree_lower by (intro power_strict_mono) simp_all
  then have s: "76 / 1000000 < (sin (pi / 360))\<^sup>2"
    by (simp add: power2_eq_square)
  have "?D\<^sup>2 = 300 + 1200 * (sin (pi / 360))\<^sup>2"
    using orbit_distance_sq [OF valid_pose_default, of "''left''"]
    by (simp add: d2 move_dist_sq)
  then have D: "300 + 912 / 10000 < ?D\<^sup>2"
    using s by linarith
  have "(?d + 1 / 500)\<^sup>2 = ?d\<^sup>2 + ?d / 250 + 1 / 250000"
    by (simp add: power2_eq_square algebra_simps)
  then have "(?d + 1 / 500)\<^sup>2 < ?D\<^sup>2"
    unfolding d2 using d D by linarith
  then show ?thesis
    by (rule power2_less_imp_less) (simp add: cam_focus_distance_def mag_nonneg)
qed

text \<open>
  C3 says that each held pan key moves the camera by a displacement of magnitude 0.02.
  The handler adds 0.02 times the basis vector, which is not a unit vector: from the
  default pose, the key \<open>w\<close> alone moves the camera by \<open>(-0.2, -0.2, -0.2)\<close>.
\<close>

theorem pan_fixed_magnitude_counterexample:
  "mag (camera_pos (handle_keyboard_inputs [''w''] default_scene) - camera_pos default_scene)
     \<noteq> 0.02"
proof
  assume a: "mag (camera_pos (handle_keyboard_inputs [''w''] default_scene)
      - camera_pos default_scene) = 0.02"
  have "camera_pos (handle_keyboard_inputs [''w''] default_scene) - camera_pos default_scene
      = vector (- 0.2) (- 0.2) (- 0.2)"
    by (simp add: camera_pos_result pan_offset_def orbit_offset_def held_offset_def key_offset_def
        default_scene_simps pan_amount_def vector_eq_iff vec_sel_simps)
  then have "(mag (vector (- 0.2) (- 0.2) (- 0.2)))\<^sup>2 = (0.02)\<^sup>2"
    using a by simp
  then have "dot (vector (- 0.2) (- 0.2) (- 0.2)) (vector (- 0.2) (- 0.2) (- 0.2)) = (0.02)\<^sup>2"
    by (simp only: mag_sq)
  then show False
    by (simp add: dot_def power2_eq_square)
qed

text \<open>
  C3, as the code has it: when \<open>ctrl\<close> is not held, the camera position after one call
  is the old position plus, for each held pan key, 0.02 times its camera-relative basis
  vector (plus for \<open>w\<close>, \<open>a\<close> and space, minus for \<open>s\<close>, \<open>d\<close> and \<open>shift\<close>), the held
  pan keys adding up, plus the orbit step of the held arrow keys. The length of a pan
  step is 0.02 times the length of the basis vector; along the forward axis that is
  0.02 times the distance between camera and focus, as the docstring of the handler
  says ("Pans amount dependent on distance between camera and focus point").
\<close>

theorem pan_displacement:
  assumes "''ctrl'' \<notin> set keys"
  shows "camera_pos (handle_keyboard_inputs keys sc) =
      camera_pos sc
      + (if ''w'' \<in> set keys then 0.02 *\<^sub>R camera_axis sc else 0)
      + (if ''s'' \<in> set keys then - (0.02 *\<^sub>R camera_axis sc) else 0)
      + (if ''a'' \<in> set keys then 0.02 *\<^sub>R cam_side_axis sc else 0)
      + (if ''d'' \<in> set keys then - (0.02 *\<^sub>R cam_side_axis sc) else 0)
      + (if '' '' \<in> set keys then 0.02 *\<^sub>R cam_up sc else 0)
      + (if ''shift'' \<in> set keys then - (0.02 *\<^sub>R cam_up sc) else 0)
      + orbit_offset keys sc \<and>
    mag (0.02 *\<^sub>R camera_axis sc) = 0.02 * cam_focus_distance sc \<and>
    mag (0.02 *\<^sub>R cam_side_axis sc) = 0.02 * mag (cam_side_axis sc) \<and>
    mag (0.02 *\<^sub>R cam_up sc) = 0.02 * mag (cam_up sc)"
  by (simp add: camera_pos_result [OF assms] pan_offset_def held_offset_def key_offset_def
      pan_amount_def mag_scaleR cam_focus_distance_axis add.assoc)

theorem pan_displacement_witness:
  "camera_pos (handle_keyboard_inputs [''w'', ''d''] default_scene) =
     camera_pos default_scene + 0.02 *\<^sub>R camera_axis default_scene
       + - (0.02 *\<^sub>R cam_side_axis default_scene)"
  using pan_displacement [of "[''w'', ''d'']" default_scene]
  by (simp add: orbit_offset_def held_offset_def)

text \<open>
  C4 says that with exactly one roll key held the scene's up vector is rotated by one
  degree about the forward axis and given the length of the forward axis, and that the
  roll does not change the camera position. The handler does not turn the scene's up
  vector: it turns its own camera-relative up vector and writes that to the scene. From
  the default pose with \<open>q\<close> held, the new up vector is not the old one, \<open>(0, 0, 1)\<close>,
  turned by one degree either way and rescaled (the old one has a component along the
  forward axis, the new one has none). With \<open>q\<close> and the up arrow held the camera ends
  elsewhere than with the up arrow alone, since the orbit step follows the rolled up
  vector. And in a pose whose up vector lies along the forward axis (the camera above
  the origin, looking down, with the z axis up) the new up vector is the zero vector,
  not a vector of the length of the forward axis.
\<close>

theorem roll_of_scene_up_counterexample:
  "scene_up (handle_keyboard_inputs [''q''] default_scene) \<noteq>
     set_mag (mag (camera_axis default_scene))
       (rotate_vec (- radians 1) (camera_axis default_scene) (scene_up default_scene)) \<and>
   scene_up (handle_keyboard_inputs [''q''] default_scene) \<noteq>
     set_mag (mag (camera_axis default_scene))
       (rotate_vec (radians 1) (camera_axis default_scene) (scene_up default_scene)) \<and>
   camera_pos (handle_keyboard_inputs [''q'', ''up''] default_scene) \<noteq>
     camera_pos (handle_keyboard_inputs [''up''] default_scene) \<and>
   mag (scene_up (handle_keyboard_inputs [''q''] (default_scene\<lparr>camera_axis := vector 0 0 (-10)\<rparr>)))
     \<noteq> mag (camera_axis (default_scene\<lparr>camera_axis := vector 0 0 (-10)\<rparr>))"
proof -
  let ?a = "camera_axis default_scene"
  let ?w = "scene_up (handle_keyboard_inputs [''q''] default_scene)"
  have a: "?a \<noteq> 0"
    by (rule valid_pose_axis [OF valid_pose_default])
  have u: "dot (scene_up default_scene) ?a \<noteq> 0"
    by (simp add: default_scene_simps dot_def)
  have "?w = rotate_vec (roll_angle [''q'']) ?a (cam_up default_scene)"
    by (rule scene_up_one_roll_key [OF _ _ valid_pose_default]) simp_all
  then have w: "dot ?w ?a = 0"
    by (simp add: dot_rotate_perp_axis [OF dot_axis_cam_up])
  have z: "mag (scene_up (handle_keyboard_inputs [''q'']
        (default_scene\<lparr>camera_axis := vector 0 0 (-10)\<rparr>))) = 0"
    by (simp add: handle_keyboard_inputs_result rolled_up_def roll_angle_def cam_up_def
        cam_side_axis_def camera_up_def default_scene_def cross_def set_mag_def norm_vec_def
        mag_def rotate_vec_def Let_def scaleR_vector_def)
  have d: "mag (camera_axis (default_scene\<lparr>camera_axis := vector 0 0 (-10)\<rparr>)) = 10"
    by (simp add: mag_def)
  show ?thesis
    using rescaled_rotation_of_up [OF a u w, of "- radians 1"]
      rescaled_rotation_of_up [OF a u w, of "radians 1"]
      roll_turns_up_orbit [OF valid_pose_default] z d
    by simp
qed

text \<open>
  C4, as the code has it: in one call without \<open>ctrl\<close>, the scene's up vector is not
  modified when both roll keys or neither are held. When exactly one is held and the
  pose is valid, the scene's up vector becomes the camera-relative up vector of the
  handler (forward \<open>\<times>\<close> side, with the length of forward) rotated about the forward axis
  by one degree (by minus one degree for \<open>q\<close>, plus one for \<open>e\<close>): it makes an angle of
  one degree with the camera-relative up vector, is perpendicular to the forward axis,
  and has the length of the forward axis. With no pan key and no arrow key held, the
  camera position is as before; and whenever the up and down arrows are both held or
  both released, the camera position is what it would be without the roll keys.
\<close>

theorem roll_up_vector:
  assumes "''ctrl'' \<notin> set keys"
  shows
    "((''q'' \<in> set keys) = (''e'' \<in> set keys) \<longrightarrow>
        scene_up (handle_keyboard_inputs keys sc) = scene_up sc) \<and>
     ((''q'' \<in> set keys) \<noteq> (''e'' \<in> set keys) \<and> valid_pose sc \<longrightarrow>
        scene_up (handle_keyboard_inputs keys sc) =
          rotate_vec (if ''q'' \<in> set keys then - radians 1 else radians 1)
            (camera_axis sc) (cam_up sc) \<and>
        dot (scene_up (handle_keyboard_inputs keys sc)) (cam_up sc) =
          mag (scene_up (handle_keyboard_inputs keys sc)) * mag (cam_up sc) * cos (radians 1) \<and>
        dot (scene_up (handle_keyboard_inputs keys sc)) (camera_axis sc) = 0 \<and>
        mag (scene_up (handle_keyboard_inputs keys sc)) = mag (camera_axis sc)) \<and>
     (set keys \<inter> {''w'', ''s'', ''a'', ''d'', '' '', ''shift'', ''left'', ''right'', ''up'', ''down''} = {} \<longrightarrow>
        camera_pos (handle_keyboard_inputs keys sc) = camera_pos sc) \<and>
     ((''up'' \<in> set keys) = (''down'' \<in> set keys) \<longrightarrow>
        camera_pos (handle_keyboard_inputs keys sc) =
          camera_pos (handle_keyboard_inputs (filter (\<lambda>k. k \<noteq> ''q'' \<and> k \<noteq> ''e'') keys) sc))"
proof (intro conjI impI)
  assume "(''q'' \<in> set keys) = (''e'' \<in> set keys)"
  then show "scene_up (handle_keyboard_inputs keys sc) = scene_up sc"
    by (simp add: handle_keyboard_inputs_result [OF assms])
next
  assume "set keys \<inter> {''w'', ''s'', ''a'', ''d'', '' '', ''shift'', ''left'', ''right'', ''up'', ''down''} = {}"
  then show "camera_pos (handle_keyboard_inputs keys sc) = camera_pos sc"
    by (simp add: camera_pos_result [OF assms] no_move_keys)
next
  assume ud: "(''up'' \<in> set keys) = (''down'' \<in> set keys)"
  have c: "''ctrl'' \<notin> set (filter (\<lambda>k. k \<noteq> ''q'' \<and> k \<noteq> ''e'') keys)"
    using assms by simp
  show "camera_pos (handle_keyboard_inputs keys sc) =
      camera_pos (handle_keyboard_inputs (filter (\<lambda>k. k \<noteq> ''q'' \<and> k \<noteq> ''e'') keys) sc)"
    by (simp only: camera_pos_result [OF assms] camera_pos_result [OF c] pan_offset_roll_free
        orbit_offset_roll_free [OF ud])
next
  assume h: "(''q'' \<in> set keys) \<noteq> (''e'' \<in> set keys) \<and> valid_pose sc"
  then have one: "(''q'' \<in> set keys) \<noteq> (''e'' \<in> set keys)" and v: "valid_pose sc"
    by simp_all
  let ?up = "scene_up (handle_keyboard_inputs keys sc)"
  have up: "?up = rotate_vec (roll_angle keys) (camera_axis sc) (cam_up sc)"
    by (rule scene_up_one_roll_key [OF assms one v])
  have m: "mag ?up = mag (cam_up sc)"
    unfolding up by (rule mag_rotate_perp [OF dot_axis_cam_up valid_pose_axis [OF v]])
  show "?up = rotate_vec (if ''q'' \<in> set keys then - radians 1 else radians 1)
      (camera_axis sc) (cam_up sc)"
    unfolding up by (simp add: roll_angle_def rot_amount_def)
  show "dot ?up (cam_up sc) = mag ?up * mag (cam_up sc) * cos (radians 1)"
    unfolding m unfolding up
    by (simp add: dot_rotate_perp_self [OF dot_axis_cam_up] cos_roll_angle
        mag_sq [symmetric] power2_eq_square)
  show "dot ?up (camera_axis sc) = 0"
    unfolding up by (rule dot_rotate_perp_axis [OF dot_axis_cam_up])
  show "mag ?up = mag (camera_axis sc)"
    using m by (simp add: mag_cam_up [OF v])
qed

theorem roll_up_vector_witness:
  "scene_up (handle_keyboard_inputs [] default_scene) = scene_up default_scene \<and>
   scene_up (handle_keyboard_inputs [''q'', ''e''] default_scene) = scene_up default_scene \<and>
   scene_up (handle_keyboard_inputs [''q''] default_scene) =
     rotate_vec (- radians 1) (camera_axis default_scene) (cam_up default_scene) \<and>
   mag (scene_up (handle_keyboard_inputs [''q''] default_scene)) = mag (camera_axis default_scene) \<and>
   scene_up (handle_keyboard_inputs [''e''] default_scene) =
     rotate_vec (radians 1) (camera_axis default_scene) (cam_up default_scene) \<and>
   camera_pos (handle_keyboard_inputs [''q''] default_scene) = camera_pos default_scene \<and>
   camera_pos (handle_keyboard_inputs [''q'', ''w'', ''left''] default_scene) =
     camera_pos (handle_keyboard_inputs [''w'', ''left''] default_scene) \<and>
   valid_pose default_scene"
  using roll_up_vector [of "[]" default_scene] roll_up_vector [of "[''q'', ''e'']" default_scene]
    roll_up_vector [of "[''q'']" default_scene] roll_up_vector [of "[''e'']" default_scene]
    roll_up_vector [of "[''q'', ''w'', ''left'']" default_scene]
    valid_pose_default
  by auto

text \<open>
  C5: take a held-key set without \<open>ctrl\<close> that holds exactly one arrow key \<open>k\<close>, and let
  \<open>d\<close> be the distance between camera and focus. One call moves the camera, from the
  position that panning has reached, by the chord \<open>move_dist d\<close> times the unit side axis
  (plus for \<open>left\<close>, minus for \<open>right\<close>) or the unit up axis (plus for \<open>up\<close>, minus for
  \<open>down\<close>); then the camera axis is the focus minus the new position, so the camera
  points at the focus, which stays where it was. In a valid pose the step has exactly
  the length of the chord, the chord is \<open>sqrt (2 d\<^sup>2 - 2 d\<^sup>2 cos 1\<degree>)\<close>, and for
  \<open>d = 17.32\<close> it is 0.3023 to four decimal places.
\<close>

theorem orbit_step:
  assumes "''ctrl'' \<notin> set keys"
    and "set keys \<inter> {''left'', ''right'', ''up'', ''down''} = {k}"
  shows
    "(k = ''left'' \<longrightarrow> camera_pos (handle_keyboard_inputs keys sc) =
        camera_pos sc + pan_offset keys sc
          + move_dist (cam_focus_distance sc) *\<^sub>R norm_vec (cam_side_axis sc)) \<and>
     (k = ''right'' \<longrightarrow> camera_pos (handle_keyboard_inputs keys sc) =
        camera_pos sc + pan_offset keys sc
          - move_dist (cam_focus_distance sc) *\<^sub>R norm_vec (cam_side_axis sc)) \<and>
     (k = ''up'' \<longrightarrow> camera_pos (handle_keyboard_inputs keys sc) =
        camera_pos sc + pan_offset keys sc
          + move_dist (cam_focus_distance sc) *\<^sub>R norm_vec (rolled_up keys sc)) \<and>
     (k = ''down'' \<longrightarrow> camera_pos (handle_keyboard_inputs keys sc) =
        camera_pos sc + pan_offset keys sc
          - move_dist (cam_focus_distance sc) *\<^sub>R norm_vec (rolled_up keys sc)) \<and>
     camera_axis (handle_keyboard_inputs keys sc) =
        - (camera_pos (handle_keyboard_inputs keys sc) - scene_center sc) \<and>
     scene_center (handle_keyboard_inputs keys sc) = scene_center sc \<and>
     (valid_pose sc \<longrightarrow>
        mag (camera_pos (handle_keyboard_inputs keys sc) - (camera_pos sc + pan_offset keys sc))
          = move_dist (cam_focus_distance sc)) \<and>
     move_dist (cam_focus_distance sc) =
        sqrt (2 * (cam_focus_distance sc)\<^sup>2
              - 2 * (cam_focus_distance sc)\<^sup>2 * cos (radians 1)) \<and>
     \<bar>move_dist 17.32 - 0.3023\<bar> < 0.00005"
proof -
  let ?s = "handle_keyboard_inputs keys sc"
  let ?m = "move_dist (cam_focus_distance sc)"
  note single = single_orbit_key [OF assms(2)]
  note opp = single(4-7)
  have pos: "camera_pos ?s = camera_pos sc + pan_offset keys sc + key_offset keys sc k"
    by (simp add: camera_pos_result [OF assms(1)] single(1))
  have left: "k = ''left'' \<longrightarrow> camera_pos ?s =
      camera_pos sc + pan_offset keys sc + ?m *\<^sub>R norm_vec (cam_side_axis sc)"
    using opp(1) by (simp add: pos key_offset_def)
  have right: "k = ''right'' \<longrightarrow> camera_pos ?s =
      camera_pos sc + pan_offset keys sc - ?m *\<^sub>R norm_vec (cam_side_axis sc)"
    using opp(2) by (simp add: pos key_offset_def)
  have up: "k = ''up'' \<longrightarrow> camera_pos ?s =
      camera_pos sc + pan_offset keys sc + ?m *\<^sub>R norm_vec (rolled_up keys sc)"
    using opp(3) by (simp add: pos key_offset_def)
  have down: "k = ''down'' \<longrightarrow> camera_pos ?s =
      camera_pos sc + pan_offset keys sc - ?m *\<^sub>R norm_vec (rolled_up keys sc)"
    using opp(4) by (simp add: pos key_offset_def)
  have center: "scene_center ?s = scene_center sc"
    by (simp add: handle_keyboard_inputs_result [OF assms(1)] single(2))
  have axis: "camera_axis ?s = - (camera_pos ?s - scene_center sc)"
    using center by (simp add: camera_pos_def)
  have len: "valid_pose sc \<longrightarrow>
      mag (camera_pos ?s - (camera_pos sc + pan_offset keys sc)) = ?m"
  proof
    assume v: "valid_pose sc"
    have b: "cam_side_axis sc \<noteq> 0" "rolled_up keys sc \<noteq> 0"
      using v rolled_up_nonzero [OF v] by (simp_all add: valid_pose_def)
    have m: "mag (?m *\<^sub>R norm_vec (cam_side_axis sc)) = ?m"
      "mag (?m *\<^sub>R norm_vec (rolled_up keys sc)) = ?m"
      by (simp_all add: mag_orbit_step b)
    have d: "camera_pos ?s - (camera_pos sc + pan_offset keys sc) = key_offset keys sc k"
      by (simp add: pos)
    consider "k = ''left''" | "k = ''right''" | "k = ''up''" | "k = ''down''"
      using single(3) by blast
    then show "mag (camera_pos ?s - (camera_pos sc + pan_offset keys sc)) = ?m"
    proof cases
      case 1 then show ?thesis using opp(1) by (simp add: d key_offset_def m)
    next
      case 2 then show ?thesis using opp(2) by (simp add: d key_offset_def mag_uminus m)
    next
      case 3 then show ?thesis using opp(3) by (simp add: d key_offset_def m)
    next
      case 4 then show ?thesis using opp(4) by (simp add: d key_offset_def mag_uminus m)
    qed
  qed
  show ?thesis
    by (rule conjI [OF left conjI [OF right conjI [OF up conjI [OF down conjI [OF axis
        conjI [OF center conjI [OF len conjI [OF move_dist_formula move_dist_example]]]]]]]])
qed

theorem orbit_step_witness:
  "camera_pos (handle_keyboard_inputs [''left''] default_scene) =
     camera_pos default_scene + pan_offset [''left''] default_scene
       + move_dist (cam_focus_distance default_scene) *\<^sub>R norm_vec (cam_side_axis default_scene) \<and>
   camera_pos (handle_keyboard_inputs [''w'', ''right''] default_scene) =
     camera_pos default_scene + pan_offset [''w'', ''right''] default_scene
       - move_dist (cam_focus_distance default_scene) *\<^sub>R norm_vec (cam_side_axis default_scene) \<and>
   camera_pos (handle_keyboard_inputs [''up''] default_scene) =
     camera_pos default_scene + pan_offset [''up''] default_scene
       + move_dist (cam_focus_distance default_scene) *\<^sub>R norm_vec (rolled_up [''up''] default_scene) \<and>
   camera_pos (handle_keyboard_inputs [''down'', ''q''] default_scene) =
     camera_pos default_scene + pan_offset [''down'', ''q''] default_scene
       - move_dist (cam_focus_distance default_scene)
           *\<^sub>R norm_vec (rolled_up [''down'', ''q''] default_scene) \<and>
   mag (camera_pos (handle_keyboard_inputs [''left''] default_scene)
        - (camera_pos default_scene + pan_offset [''left''] default_scene))
     = move_dist (cam_focus_distance default_scene) \<and>
   valid_pose default_scene"
  using orbit_step [of "[''left'']" "''left''" default_scene]
    orbit_step [of "[''w'', ''right'']" "''right''" default_scene]
    orbit_step [of "[''up'']" "''up''" default_scene]
    orbit_step [of "[''down'', ''q'']" "''down''" default_scene]
    valid_pose_default
  by auto



text \<open>
  C7: whatever the scene was, after \<open>reset_camera\<close> the camera is at \<open>(10, 10, 10)\<close>,
  its axis is \<open>(-10, -10, -10)\<close> and the scene's up vector is the z axis unit vector.
\<close>

theorem reset_camera_defaults:
  "camera_pos (reset_camera sc) = vector 10 10 10 \<and>
   camera_axis (reset_camera sc) = vector (-10) (-10) (-10) \<and>
   scene_up (reset_camera sc) = vector 0 0 1"
  by (simp add: reset_camera_def Let_def set_scene_up_def set_camera_pos_def
      set_camera_axis_def camera_pos_def z_axis_vector_def plus_vector_def
      minus_vector_def uminus_vector_def)

text \<open>
  C8: for every height, width, title, caption and grid flag, and every scene before,
  \<open>init_canvas\<close> leaves \<open>userpan\<close> false and \<open>userzoom\<close> and \<open>userspin\<close> true, places
  the camera at \<open>(10, 10, 10)\<close>, at the same distance from the origin on all three
  axes, and returns a grid whose visibility was set to false exactly when the argument
  \<open>grid\<close> is false; the returned grid is visible exactly when \<open>grid\<close> is true.
\<close>

theorem init_canvas_controls:
  "scene_userpan (snd (init_canvas height width title caption grid sc)) = False \<and>
   scene_userzoom (snd (init_canvas height width title caption grid sc)) = True \<and>
   scene_userspin (snd (init_canvas height width title caption grid sc)) = True \<and>
   camera_pos (snd (init_canvas height width title caption grid sc)) = vector 10 10 10 \<and>
   fst (init_canvas height width title caption grid sc) =
     (if grid then GraphicsGrid else set_visibility False GraphicsGrid) \<and>
   grid_visible (fst (init_canvas height width title caption grid sc)) = grid"
  by (simp add: init_canvas_def setup_ui_controls_def convert_grid_to_z_up_def Let_def
      append_to_caption_def scene_bind_def set_scene_forward_def set_scene_up_def
      set_camera_pos_def set_camera_axis_def camera_pos_def GraphicsGrid_def set_visibility_def
      vector_eq_iff vec_sel_simps)



text \<open>
  C10 says that the handler never modifies the focus point \<open>scene.center\<close>. The handler
  does not assign it, but assigning the camera position moves the centre along: from
  the default pose, the key \<open>w\<close> alone moves the centre off the origin.
\<close>

theorem center_moves_counterexample:
  "scene_center (handle_keyboard_inputs [''w''] default_scene) \<noteq> scene_center default_scene"
  by (simp add: handle_keyboard_inputs_result orbit_active_def pan_offset_def held_offset_def
      key_offset_def default_scene_simps pan_amount_def vector_eq_iff vec_sel_simps)

text \<open>
  C10, as the code has it: \<open>handle_keyboard_inputs\<close> and \<open>reset_camera\<close> change nothing
  of the scene but the camera position and axis, the up vector, and what the toolkit
  changes with the camera: the centre, which it keeps at position plus axis, and
  \<open>autoscale\<close>, which it switches off. The handler changes nothing at all while \<open>ctrl\<close> is
  held. After the handler the centre is where it was when \<open>ctrl\<close> is held or an arrow
  key is held without its opposite, and has moved by the pan offset otherwise; after
  \<open>reset_camera\<close> the centre is the origin.
\<close>

theorem center_frame:
  "handle_keyboard_inputs keys sc =
     sc\<lparr>scene_autoscale := (if ''ctrl'' \<in> set keys then scene_autoscale sc else False),
        scene_center := scene_center (handle_keyboard_inputs keys sc),
        camera_axis := camera_axis (handle_keyboard_inputs keys sc),
        scene_up := scene_up (handle_keyboard_inputs keys sc)\<rparr> \<and>
   scene_center (handle_keyboard_inputs keys sc) =
     (if ''ctrl'' \<in> set keys \<or> orbit_active keys then scene_center sc
      else scene_center sc + pan_offset keys sc) \<and>
   reset_camera sc =
     sc\<lparr>scene_autoscale := False, scene_center := vector 0 0 0,
        camera_axis := vector (-10) (-10) (-10), scene_up := vector 0 0 1\<rparr>"
proof (cases "''ctrl'' \<in> set keys")
  case True
  then show ?thesis
    by (simp add: handle_keyboard_inputs_def reset_camera_def Let_def set_scene_up_def
        set_camera_pos_def set_camera_axis_def camera_pos_def z_axis_vector_def
        plus_vector_def minus_vector_def uminus_vector_def)
next
  case False
  then show ?thesis
    by (simp add: handle_keyboard_inputs_result reset_camera_def Let_def set_scene_up_def
        set_camera_pos_def set_camera_axis_def camera_pos_def z_axis_vector_def
        plus_vector_def minus_vector_def uminus_vector_def)
qed

end
